theory Spec2Isabelle
  imports Main "HOL-Library.Sublist"
begin

section \<open>The upload-config phase of kubeadm (cmd/kubeadm/app/cmd/phases/uploadconfig.go)\<close>

text \<open>
  The file declares a phase tree and two run functions. Each run function obtains a
  configuration pointer and a client from its execution context and then drives
  package-level collaborators (\<^verbatim>\<open>uploadconfig.UploadConfiguration\<close>,
  \<^verbatim>\<open>kubeletphase.CreateConfigMap\<close>, \<^verbatim>\<open>patchnodephase.AnnotateCRISocket\<close>) defined
  in other packages. The collaborators and the two accessors of the context are
  parameters of the model: arbitrary functions on a world that holds the Go heap cells of
  the configurations and whatever else they touch. Every call is recorded, in order, in a
  call log that only the model writes.
\<close>

subsection \<open>Go \<^verbatim>\<open>error\<close> values\<close>

text \<open>
  A non-nil \<^verbatim>\<open>error\<close> is either a plain message or a cause annotated with a message;
  the nil error is \<open>None\<close> of \<open>error option\<close>.
\<close>

datatype error = fundamental string | withMessage error string

text \<open>
  Modelled from the spec: \<^verbatim>\<open>errors.New\<close>, \<^verbatim>\<open>errors.Wrap\<close> and the \<^verbatim>\<open>Error()\<close>
  method of the vendored package github.com/pkg/errors, which is not among the sources.
  The spec has a failure wrapped "with a fixed descriptive prefix", the result carrying
  the underlying cause and a message that contains both the prefix and the cause's
  content. \<open>errors_Wrap\<close> keeps the cause and the message side by side; \<open>Error\<close> renders
  the message, a colon and a blank, and the cause's text. Wrapping the nil error gives
  nil. Stack traces are left out.
\<close>

definition errors_New :: "string \<Rightarrow> error option" where
  "errors_New message = Some (fundamental message)"

definition errors_Wrap :: "error option \<Rightarrow> string \<Rightarrow> error option" where
  "errors_Wrap err message =
     (case err of None \<Rightarrow> None | Some e \<Rightarrow> Some (withMessage e message))"

fun Error :: "error \<Rightarrow> string" where
  "Error (fundamental msg) = msg"
| "Error (withMessage cause msg) = msg @ '': '' @ Error cause"

subsection \<open>Configuration, client, heap\<close>

text \<open>
  \<^verbatim>\<open>kubeadmapi.InitConfiguration\<close> is declared in another package. The code reads
  \<^verbatim>\<open>cfg.NodeRegistration.Name\<close> and \<^verbatim>\<open>cfg.NodeRegistration.CRISocket\<close>; every other
  field lives in the extension slot \<open>'z\<close> of the record.
\<close>

record NodeRegistrationOptions =
  Name :: string
  CRISocket :: string

record InitConfiguration =
  NodeRegistration :: NodeRegistrationOptions

text \<open>
  \<^verbatim>\<open>*kubeadmapi.InitConfiguration\<close> is an address or nil (\<open>None\<close>). Go pointers never
  dangle, so the heap is total. \<^verbatim>\<open>clientset.Interface\<close> is an interface value: a
  handle or nil.
\<close>

type_synonym addr = nat

datatype clientset_Interface = Clientset nat

record ('z, 'x) world =
  heap :: "addr \<Rightarrow> 'z InitConfiguration_scheme"
  cluster :: 'x

subsection \<open>The call log\<close>

datatype event =
    is_Cfg: Call_Cfg "addr option"
  | is_Client: Call_Client "clientset_Interface option" "error option"
  | is_Infof: Call_Infof nat string
  | is_UploadConfiguration: Call_UploadConfiguration "addr option" "clientset_Interface option"
  | is_CreateConfigMap: Call_CreateConfigMap "addr option" "clientset_Interface option"
  | is_AnnotateCRISocket: Call_AnnotateCRISocket "clientset_Interface option" string string

type_synonym ('z, 'x) state = "('z, 'x) world \<times> event list"

text \<open>
  \<open>invoke ev f\<close> runs the external operation \<open>f\<close> on the world and appends the event
  \<open>ev r\<close> built from its result \<open>r\<close> to the log.
\<close>

definition invoke ::
  "('r \<Rightarrow> event) \<Rightarrow> (('z, 'x) world \<Rightarrow> 'r \<times> ('z, 'x) world) \<Rightarrow> ('z, 'x) state
     \<Rightarrow> 'r \<times> ('z, 'x) state" where
  "invoke ev f s = (case f (fst s) of (r, w') \<Rightarrow> (r, (w', snd s @ [ev r])))"

text \<open>\<^verbatim>\<open>klog.V(level).Infof(msg)\<close>: one diagnostic line, recorded with its verbosity level.\<close>

definition klog_V_Infof :: "nat \<Rightarrow> string \<Rightarrow> ('z, 'x) state \<Rightarrow> ('z, 'x) state" where
  "klog_V_Infof level msg s = (fst s, snd s @ [Call_Infof level msg])"

subsection \<open>The execution context and the collaborators\<close>

text \<open>
  \<^verbatim>\<open>workflow.RunData\<close> is the empty interface. The type assertion
  \<^verbatim>\<open>c.(uploadConfigData)\<close> succeeds exactly when the dynamic value has both methods
  \<^verbatim>\<open>Cfg()\<close> and \<^verbatim>\<open>Client()\<close>; a context is therefore the pair of the methods it has.
  \<^verbatim>\<open>Client()\<close> returns a pair (client, err), either of which may be nil.
\<close>

record ('z, 'x) RunData =
  Cfg :: "(('z, 'x) world \<Rightarrow> addr option \<times> ('z, 'x) world) option"
  Client :: "(('z, 'x) world \<Rightarrow>
               (clientset_Interface option \<times> error option) \<times> ('z, 'x) world) option"

record ('z, 'x) collaborators =
  uploadconfig_UploadConfiguration ::
    "addr option \<Rightarrow> clientset_Interface option \<Rightarrow> ('z, 'x) world \<Rightarrow> error option \<times> ('z, 'x) world"
  kubeletphase_CreateConfigMap ::
    "addr option \<Rightarrow> clientset_Interface option \<Rightarrow> ('z, 'x) world \<Rightarrow> error option \<times> ('z, 'x) world"
  patchnodephase_AnnotateCRISocket ::
    "clientset_Interface option \<Rightarrow> string \<Rightarrow> string \<Rightarrow> ('z, 'x) world \<Rightarrow> error option \<times> ('z, 'x) world"

subsection \<open>getUploadConfigData\<close>

definition getUploadConfigData ::
  "('z, 'x) RunData \<Rightarrow> ('z, 'x) state
     \<Rightarrow> (addr option \<times> clientset_Interface option \<times> error option) \<times> ('z, 'x) state" where
  "getUploadConfigData c s =
     (case (Cfg c, Client c) of
        (Some data_Cfg, Some data_Client) \<Rightarrow>
          (case invoke Call_Cfg data_Cfg s of (cfg, s1) \<Rightarrow>
           case invoke (\<lambda>r. Call_Client (fst r) (snd r)) data_Client s1 of ((client, err), s2) \<Rightarrow>
             if err \<noteq> None then ((None, None, err), s2)
             else ((cfg, client, err), s2))
      | _ \<Rightarrow>
          ((None, None, errors_New ''upload-config phase invoked with an invalid data struct''), s))"

subsection \<open>The run functions\<close>

text \<open>
  A run function returns an \<^verbatim>\<open>error\<close> (\<open>Inr\<close>) or panics (\<open>Inl\<close>): dereferencing a nil
  \<^verbatim>\<open>cfg\<close> in \<^verbatim>\<open>cfg.NodeRegistration.Name\<close> is a run-time panic, raised while the
  arguments of \<^verbatim>\<open>AnnotateCRISocket\<close> are evaluated, before the call. A panic raised
  inside an accessor or a collaborator is not modelled: they are functions that return.
\<close>

datatype panic = NilPointerDereference

definition runUploadKubeadmConfig ::
  "('z, 'x) collaborators \<Rightarrow> ('z, 'x) RunData \<Rightarrow> ('z, 'x) state
     \<Rightarrow> (panic + error option) \<times> ('z, 'x) state" where
  "runUploadKubeadmConfig K c s =
     (case getUploadConfigData c s of ((cfg, client, err), s1) \<Rightarrow>
        if err \<noteq> None then (Inr err, s1)
        else
          let s2 = klog_V_Infof 1
                ''[upload-config] Uploading the kubeadm ClusterConfiguration to a ConfigMap'' s1
          in case invoke (\<lambda>_. Call_UploadConfiguration cfg client)
                    (uploadconfig_UploadConfiguration K cfg client) s2 of (err, s3) \<Rightarrow>
             if err \<noteq> None
             then (Inr (errors_Wrap err ''error uploading the kubeadm ClusterConfiguration''), s3)
             else (Inr None, s3))"

definition runUploadKubeletConfig ::
  "('z, 'x) collaborators \<Rightarrow> ('z, 'x) RunData \<Rightarrow> ('z, 'x) state
     \<Rightarrow> (panic + error option) \<times> ('z, 'x) state" where
  "runUploadKubeletConfig K c s =
     (case getUploadConfigData c s of ((cfg, client, err), s1) \<Rightarrow>
        if err \<noteq> None then (Inr err, s1)
        else
          let s2 = klog_V_Infof 1
                ''[upload-config] Uploading the kubelet component config to a ConfigMap'' s1
          in case invoke (\<lambda>_. Call_CreateConfigMap cfg client)
                    (kubeletphase_CreateConfigMap K cfg client) s2 of (err, s3) \<Rightarrow>
             if err \<noteq> None
             then (Inr (errors_Wrap err ''error creating kubelet configuration ConfigMap''), s3)
             else
               let s4 = klog_V_Infof 1
                     ''[upload-config] Preserving the CRISocket information for the control-plane node'' s3
               in (case cfg of
                    None \<Rightarrow> (Inl NilPointerDereference, s4)
                  | Some a \<Rightarrow>
                      let reg = NodeRegistration (heap (fst s4) a)
                      in (case invoke (\<lambda>_. Call_AnnotateCRISocket client (Name reg) (CRISocket reg))
                                (patchnodephase_AnnotateCRISocket K client (Name reg) (CRISocket reg))
                                s4 of (err, s5) \<Rightarrow>
                         if err \<noteq> None
                         then (Inr (errors_Wrap err
                                 ''Error writing Crisocket information for the control-plane node''), s5)
                         else (Inr None, s5))))"

subsection \<open>The phase tree\<close>

text \<open>
  \<^verbatim>\<open>workflow.Phase\<close> is declared in another package; the fields are those the
  composite literals of this file set. A field a literal leaves out has Go's zero value:
  the empty string, the nil slice (\<open>[]\<close>), the nil function (\<open>None\<close>). The clash of
  \<^verbatim>\<open>Phase.Name\<close> with \<^verbatim>\<open>NodeRegistrationOptions.Name\<close> is resolved by a suffix.
\<close>

datatype 'f Phase = Phase
  (Name_Phase: string)
  (Aliases: "string list")
  (Short: string)
  (Long: string)
  (Example: string)
  (Phases: "'f Phase list")
  (Run: "'f option")
  (CmdFlags: "string list")

text \<open>
  What the declarations draw from other packages: the two text normalizers,
  \<^verbatim>\<open>fmt.Sprintf\<close>, and five string constants. They are parameters.
\<close>

record externs =
  normalizer_LongDesc :: "string \<Rightarrow> string"
  normalizer_Examples :: "string \<Rightarrow> string"
  fmt_Sprintf :: "string \<Rightarrow> string list \<Rightarrow> string"
  kubeadmconstants_KubeadmConfigConfigMap :: string
  metav1_NamespaceSystem :: string
  cmdutil_MacroCommandLongDescription :: string
  options_CfgPath :: string
  options_KubeconfigPath :: string

abbreviation NL :: char where "NL \<equiv> CHR 0x0A"
abbreviation TAB :: char where "TAB \<equiv> CHR 0x09"

definition uploadKubeadmConfigLongDesc :: "externs \<Rightarrow> string" where
  "uploadKubeadmConfigLongDesc X =
     fmt_Sprintf X
       (normalizer_LongDesc X
          ([NL, TAB, TAB] @
           ''Uploads the kubeadm ClusterConfiguration to a ConfigMap called %s in the %s namespace. '' @
           [NL, TAB, TAB] @
           ''This enables correct configuration of system components and a seamless user experience when upgrading.'' @
           [NL, NL, TAB, TAB] @
           ''Alternatively, you can use kubeadm config.'' @
           [NL, TAB, TAB]))
       [kubeadmconstants_KubeadmConfigConfigMap X, metav1_NamespaceSystem X]"

definition uploadKubeadmConfigExample :: "externs \<Rightarrow> string" where
  "uploadKubeadmConfigExample X =
     normalizer_Examples X
       ([NL, TAB, TAB] @
        ''# uploads the configuration of your cluster'' @
        [NL, TAB, TAB] @
        ''kubeadm alpha phase upload-config --config=myConfig.yaml'' @
        [NL, TAB, TAB])"

definition uploadKubeletConfigLongDesc :: "externs \<Rightarrow> string" where
  "uploadKubeletConfigLongDesc X =
     normalizer_LongDesc X
       ([NL, TAB, TAB] @
        ''Uploads kubelet configuration extracted from the kubeadm InitConfiguration object to a ConfigMap'' @
        [NL, TAB, TAB] @
        ''of the form kubelet-config-1.X in the cluster, where X is the minor version of the current (API Server) Kubernetes version.'' @
        [NL, TAB, TAB])"

definition uploadKubeletConfigExample :: "externs \<Rightarrow> string" where
  "uploadKubeletConfigExample X =
     normalizer_Examples X
       ([NL, TAB, TAB] @
        ''# Uploads the kubelet configuration from the kubeadm Config file to a ConfigMap in the cluster.'' @
        [NL, TAB, TAB] @
        ''kubeadm init phase upload-config kubelet --config kubeadm.yaml'' @
        [NL, TAB, TAB])"

definition getUploadConfigPhaseFlags :: "externs \<Rightarrow> string list" where
  "getUploadConfigPhaseFlags X = [options_CfgPath X, options_KubeconfigPath X]"

type_synonym ('z, 'x) run_function =
  "('z, 'x) RunData \<Rightarrow> ('z, 'x) state \<Rightarrow> (panic + error option) \<times> ('z, 'x) state"

definition NewUploadConfigPhase ::
  "externs \<Rightarrow> ('z, 'x) collaborators \<Rightarrow> ('z, 'x) run_function Phase" where
  "NewUploadConfigPhase X K =
     Phase ''upload-config''
       [''uploadconfig'']
       ''Uploads the kubeadm and kubelet configuration to a ConfigMap''
       (cmdutil_MacroCommandLongDescription X)
       []
       [Phase ''kubeadm'' []
          ''Uploads the kubeadm ClusterConfiguration to a ConfigMap''
          (uploadKubeadmConfigLongDesc X)
          (uploadKubeadmConfigExample X)
          []
          (Some (runUploadKubeadmConfig K))
          (getUploadConfigPhaseFlags X),
        Phase ''kubelet'' []
          ''Uploads the kubelet component config to a ConfigMap''
          (uploadKubeletConfigLongDesc X)
          (uploadKubeletConfigExample X)
          []
          (Some (runUploadKubeletConfig K))
          (getUploadConfigPhaseFlags X)]
       None
       []"

subsection \<open>Reading the call log\<close>

text \<open>The calls one invocation of \<open>f\<close> adds to the log, oldest first.\<close>

definition calls_during ::
  "(('z, 'x) state \<Rightarrow> 'r \<times> ('z, 'x) state) \<Rightarrow> ('z, 'x) state \<Rightarrow> event list" where
  "calls_during f s = drop (length (snd s)) (snd (snd (f s)))"

text \<open>The client a collaborator call was given, and the client a \<^verbatim>\<open>Client()\<close> call returned.\<close>

fun client_passed :: "event \<Rightarrow> clientset_Interface option list" where
  "client_passed (Call_UploadConfiguration cfg client) = [client]"
| "client_passed (Call_CreateConfigMap cfg client) = [client]"
| "client_passed (Call_AnnotateCRISocket client name sock) = [client]"
| "client_passed (Call_Cfg cfg) = []"
| "client_passed (Call_Client client err) = []"
| "client_passed (Call_Infof level msg) = []"

fun client_obtained :: "event \<Rightarrow> clientset_Interface option list" where
  "client_obtained (Call_Client client err) = [client]"
| "client_obtained (Call_Cfg cfg) = []"
| "client_obtained (Call_Infof level msg) = []"
| "client_obtained (Call_UploadConfiguration cfg client) = []"
| "client_obtained (Call_CreateConfigMap cfg client) = []"
| "client_obtained (Call_AnnotateCRISocket client name sock) = []"

definition is_collaborator :: "event \<Rightarrow> bool" where
  "is_collaborator e = (is_UploadConfiguration e \<or> is_CreateConfigMap e \<or> is_AnnotateCRISocket e)"

subsection \<open>Test doubles\<close>

text \<open>
  A context and collaborators to run the functions on: one configuration at address 0,
  a cluster that counts the writes made to it, a \<^verbatim>\<open>Client()\<close> that returns a handle
  together with a chosen error, collaborators that return a chosen result and write only
  when they succeed.
\<close>

definition node1 :: InitConfiguration where
  "node1 = \<lparr>NodeRegistration = \<lparr>Name = ''node-1'', CRISocket = ''unix:///run/x.sock''\<rparr>\<rparr>"

definition world0 :: "(unit, nat) world" where
  "world0 = \<lparr>heap = (\<lambda>_. node1), cluster = 0\<rparr>"

definition written :: "error option \<Rightarrow> (unit, nat) world \<Rightarrow> (unit, nat) world" where
  "written r w = (if r = None then w\<lparr>cluster := Suc (cluster w)\<rparr> else w)"

definition mock_Cfg :: "(unit, nat) world \<Rightarrow> addr option \<times> (unit, nat) world" where
  "mock_Cfg w = (Some 0, w)"

definition mock_Client ::
  "error option \<Rightarrow> (unit, nat) world
     \<Rightarrow> (clientset_Interface option \<times> error option) \<times> (unit, nat) world" where
  "mock_Client r w = ((Some (Clientset 1), r), w)"

definition mock_data :: "error option \<Rightarrow> (unit, nat) RunData" where
  "mock_data r = \<lparr>Cfg = Some mock_Cfg, Client = Some (mock_Client r)\<rparr>"

definition foreign_data :: "(unit, nat) RunData" where
  "foreign_data = \<lparr>Cfg = None, Client = None\<rparr>"

definition mock_collaborators ::
  "error option \<Rightarrow> error option \<Rightarrow> error option \<Rightarrow> (unit, nat) collaborators" where
  "mock_collaborators upload create annotate =
     \<lparr>uploadconfig_UploadConfiguration = (\<lambda>cfg client w. (upload, written upload w)),
      kubeletphase_CreateConfigMap = (\<lambda>cfg client w. (create, written create w)),
      patchnodephase_AnnotateCRISocket = (\<lambda>client name sock w. (annotate, written annotate w))\<rparr>"

text \<open>
  External code that holds the pointer can write through it. \<open>rename_node a n\<close> is the
  assignment \<^verbatim>\<open>cfg.NodeRegistration.Name = n\<close> on the configuration at address \<open>a\<close>;
  \<open>renaming_data\<close> is a context whose \<^verbatim>\<open>Client()\<close> makes it, \<open>renaming_collaborators\<close>
  are collaborators that all succeed and whose \<^verbatim>\<open>CreateConfigMap\<close> makes it.
\<close>

definition rename_node :: "addr \<Rightarrow> string \<Rightarrow> (unit, nat) world \<Rightarrow> (unit, nat) world" where
  "rename_node a n v =
     v\<lparr>heap := (heap v)
          (a := (heap v a)\<lparr>NodeRegistration := (NodeRegistration (heap v a))\<lparr>Name := n\<rparr>\<rparr>)\<rparr>"

definition renaming_Client ::
  "(unit, nat) world \<Rightarrow> (clientset_Interface option \<times> error option) \<times> (unit, nat) world" where
  "renaming_Client v = ((Some (Clientset 1), None), rename_node 0 ''node-2'' v)"

definition renaming_data :: "(unit, nat) RunData" where
  "renaming_data = \<lparr>Cfg = Some mock_Cfg, Client = Some renaming_Client\<rparr>"

definition renaming_collaborators :: "(unit, nat) collaborators" where
  "renaming_collaborators =
     \<lparr>uploadconfig_UploadConfiguration = (\<lambda>cfg client v. (None, v)),
      kubeletphase_CreateConfigMap =
        (\<lambda>cfg client v. (None, case cfg of None \<Rightarrow> v | Some a \<Rightarrow> rename_node a ''node-2'' v)),
      patchnodephase_AnnotateCRISocket = (\<lambda>client name sock v. (None, v))\<rparr>"

definition mock_externs :: externs where
  "mock_externs =
     \<lparr>normalizer_LongDesc = (\<lambda>s. s),
      normalizer_Examples = (\<lambda>s. s),
      fmt_Sprintf = (\<lambda>format args. format),
      kubeadmconstants_KubeadmConfigConfigMap = ''kubeadm-config'',
      metav1_NamespaceSystem = ''kube-system'',
      cmdutil_MacroCommandLongDescription = [],
      options_CfgPath = ''config'',
      options_KubeconfigPath = ''kubeconfig''\<rparr>"

section \<open>What each path of the code does\<close>

lemma calls_during_append:
  "snd (snd (f (w, tr))) = tr @ new \<Longrightarrow> calls_during f (w, tr) = new"
  by (simp add: calls_during_def)

lemma getUploadConfigData_invalid:
  "Cfg c = None \<or> Client c = None \<Longrightarrow>
   getUploadConfigData c s =
     ((None, None, Some (fundamental ''upload-config phase invoked with an invalid data struct'')), s)"
  by (auto simp: getUploadConfigData_def errors_New_def split: option.splits)

lemma getUploadConfigData_called:
  assumes "Cfg c = Some data_Cfg" "Client c = Some data_Client"
    and "data_Cfg w = (cfg, w1)" "data_Client w1 = ((client, err), w2)"
  shows "getUploadConfigData c (w, tr) =
     ((if err \<noteq> None then (None, None, err) else (cfg, client, err)),
      (w2, tr @ [Call_Cfg cfg, Call_Client client err]))"
  using assms by (simp add: getUploadConfigData_def invoke_def)

lemma kubeadm_invalid:
  "Cfg c = None \<or> Client c = None \<Longrightarrow>
   runUploadKubeadmConfig K c s =
     (Inr (Some (fundamental ''upload-config phase invoked with an invalid data struct'')), s)"
  by (simp add: runUploadKubeadmConfig_def getUploadConfigData_invalid)

lemma kubelet_invalid:
  "Cfg c = None \<or> Client c = None \<Longrightarrow>
   runUploadKubeletConfig K c s =
     (Inr (Some (fundamental ''upload-config phase invoked with an invalid data struct'')), s)"
  by (simp add: runUploadKubeletConfig_def getUploadConfigData_invalid)

lemma kubeadm_client_fails:
  assumes "Cfg c = Some data_Cfg" "Client c = Some data_Client"
    and "data_Cfg w = (cfg, w1)" "data_Client w1 = ((client, Some E), w2)"
  shows "runUploadKubeadmConfig K c (w, tr) =
     (Inr (Some E), (w2, tr @ [Call_Cfg cfg, Call_Client client (Some E)]))"
  using assms by (simp add: runUploadKubeadmConfig_def getUploadConfigData_called)

lemma kubelet_client_fails:
  assumes "Cfg c = Some data_Cfg" "Client c = Some data_Client"
    and "data_Cfg w = (cfg, w1)" "data_Client w1 = ((client, Some E), w2)"
  shows "runUploadKubeletConfig K c (w, tr) =
     (Inr (Some E), (w2, tr @ [Call_Cfg cfg, Call_Client client (Some E)]))"
  using assms by (simp add: runUploadKubeletConfig_def getUploadConfigData_called)

lemma kubeadm_resolved:
  assumes "Cfg c = Some data_Cfg" "Client c = Some data_Client"
    and "data_Cfg w = (cfg, w1)" "data_Client w1 = ((client, None), w2)"
    and "uploadconfig_UploadConfiguration K cfg client w2 = (r, w3)"
  shows "runUploadKubeadmConfig K c (w, tr) =
     (Inr (case r of None \<Rightarrow> None
           | Some E \<Rightarrow> Some (withMessage E ''error uploading the kubeadm ClusterConfiguration'')),
      (w3, tr @ [Call_Cfg cfg, Call_Client client None,
         Call_Infof 1 ''[upload-config] Uploading the kubeadm ClusterConfiguration to a ConfigMap'',
         Call_UploadConfiguration cfg client]))"
  using assms
  by (auto simp: runUploadKubeadmConfig_def getUploadConfigData_called invoke_def
      klog_V_Infof_def errors_Wrap_def)

lemma kubelet_create_fails:
  assumes "Cfg c = Some data_Cfg" "Client c = Some data_Client"
    and "data_Cfg w = (cfg, w1)" "data_Client w1 = ((client, None), w2)"
    and "kubeletphase_CreateConfigMap K cfg client w2 = (Some E, w3)"
  shows "runUploadKubeletConfig K c (w, tr) =
     (Inr (Some (withMessage E ''error creating kubelet configuration ConfigMap'')),
      (w3, tr @ [Call_Cfg cfg, Call_Client client None,
         Call_Infof 1 ''[upload-config] Uploading the kubelet component config to a ConfigMap'',
         Call_CreateConfigMap cfg client]))"
  using assms
  by (simp add: runUploadKubeletConfig_def getUploadConfigData_called invoke_def
      klog_V_Infof_def errors_Wrap_def)

lemma kubelet_nil_cfg:
  assumes "Cfg c = Some data_Cfg" "Client c = Some data_Client"
    and "data_Cfg w = (None, w1)" "data_Client w1 = ((client, None), w2)"
    and "kubeletphase_CreateConfigMap K None client w2 = (None, w3)"
  shows "runUploadKubeletConfig K c (w, tr) =
     (Inl NilPointerDereference,
      (w3, tr @ [Call_Cfg None, Call_Client client None,
         Call_Infof 1 ''[upload-config] Uploading the kubelet component config to a ConfigMap'',
         Call_CreateConfigMap None client,
         Call_Infof 1 ''[upload-config] Preserving the CRISocket information for the control-plane node'']))"
  using assms
  by (simp add: runUploadKubeletConfig_def getUploadConfigData_called invoke_def
      klog_V_Infof_def errors_Wrap_def)

lemma kubelet_annotates:
  assumes "Cfg c = Some data_Cfg" "Client c = Some data_Client"
    and "data_Cfg w = (Some a, w1)" "data_Client w1 = ((client, None), w2)"
    and "kubeletphase_CreateConfigMap K (Some a) client w2 = (None, w3)"
    and "patchnodephase_AnnotateCRISocket K client
           (Name (NodeRegistration (heap w3 a))) (CRISocket (NodeRegistration (heap w3 a))) w3
         = (r, w4)"
  shows "runUploadKubeletConfig K c (w, tr) =
     (Inr (case r of None \<Rightarrow> None
           | Some E \<Rightarrow> Some (withMessage E
               ''Error writing Crisocket information for the control-plane node'')),
      (w4, tr @ [Call_Cfg (Some a), Call_Client client None,
         Call_Infof 1 ''[upload-config] Uploading the kubelet component config to a ConfigMap'',
         Call_CreateConfigMap (Some a) client,
         Call_Infof 1 ''[upload-config] Preserving the CRISocket information for the control-plane node'',
         Call_AnnotateCRISocket client
           (Name (NodeRegistration (heap w3 a))) (CRISocket (NodeRegistration (heap w3 a)))]))"
  using assms
  by (auto simp: runUploadKubeletConfig_def getUploadConfigData_called invoke_def
      klog_V_Infof_def errors_Wrap_def Let_def)

lemma Error_withMessage_contains:
  "sublist m (Error (withMessage e m))"
  "sublist (Error e) (Error (withMessage e m))"
proof -
  show "sublist m (Error (withMessage e m))"
    by (simp add: prefix_imp_sublist)
  have "suffix (Error e) (m @ '': '' @ Error e)"
    unfolding suffix_def by (rule exI [of _ "m @ '': ''"]) simp
  then show "sublist (Error e) (Error (withMessage e m))"
    by (simp add: suffix_imp_sublist)
qed

text \<open>
  Every invocation of the kubelet run function leaves one of five logs: nothing (the
  capability check failed), the two accessor calls (\<^verbatim>\<open>Client()\<close> failed), those and the
  config-map call (it failed), those and the second log line (nil \<^verbatim>\<open>cfg\<close>: panic), or
  the full sequence ending in the annotation call.
\<close>

lemma kubelet_log_cases:
  fixes K :: "('z, 'x) collaborators" and c :: "('z, 'x) RunData" and w :: "('z, 'x) world"
  shows "calls_during (runUploadKubeletConfig K c) (w, tr) = []
   \<or> (\<exists>cfg client err. err \<noteq> None \<and>
        calls_during (runUploadKubeletConfig K c) (w, tr) = [Call_Cfg cfg, Call_Client client err])
   \<or> (\<exists>cfg client m. calls_during (runUploadKubeletConfig K c) (w, tr) =
        [Call_Cfg cfg, Call_Client client None, Call_Infof 1 m, Call_CreateConfigMap cfg client])
   \<or> (\<exists>cfg client m m'. calls_during (runUploadKubeletConfig K c) (w, tr) =
        [Call_Cfg cfg, Call_Client client None, Call_Infof 1 m, Call_CreateConfigMap cfg client,
         Call_Infof 1 m'])
   \<or> (\<exists>cfg client m m' n s. calls_during (runUploadKubeletConfig K c) (w, tr) =
        [Call_Cfg cfg, Call_Client client None, Call_Infof 1 m, Call_CreateConfigMap cfg client,
         Call_Infof 1 m', Call_AnnotateCRISocket client n s])"
proof (cases "Cfg c = None \<or> Client c = None")
  case True
  then show ?thesis
    by (simp add: kubelet_invalid calls_during_def)
next
  case False
  then obtain data_Cfg data_Client where
    m: "Cfg c = Some data_Cfg" "Client c = Some data_Client"
    by auto
  obtain cfg w1 where r1: "data_Cfg w = (cfg, w1)"
    by (cases "data_Cfg w")
  obtain client err w2 where r2: "data_Client w1 = ((client, err), w2)"
    by (cases "data_Client w1") auto
  show ?thesis
  proof (cases err)
    case (Some E)
    from kubelet_client_fails [OF m r1 r2 [unfolded Some], of K tr]
    have "calls_during (runUploadKubeletConfig K c) (w, tr) =
        [Call_Cfg cfg, Call_Client client (Some E)]"
      by (intro calls_during_append) simp
    then show ?thesis by simp
  next
    case None
    note r2 = r2 [unfolded None]
    obtain e3 w3 where r3: "kubeletphase_CreateConfigMap K cfg client w2 = (e3, w3)"
      by (cases "kubeletphase_CreateConfigMap K cfg client w2")
    show ?thesis
    proof (cases e3)
      case (Some E)
      from kubelet_create_fails [OF m r1 r2 r3 [unfolded Some], of tr]
      have "calls_during (runUploadKubeletConfig K c) (w, tr) =
        [Call_Cfg cfg, Call_Client client None,
         Call_Infof 1 ''[upload-config] Uploading the kubelet component config to a ConfigMap'',
         Call_CreateConfigMap cfg client]"
        by (intro calls_during_append) simp
      then show ?thesis by simp
    next
      case None
      note r3 = r3 [unfolded None]
      show ?thesis
      proof (cases cfg)
        case None
        from kubelet_nil_cfg [OF m r1 [unfolded None] r2 r3 [unfolded None], of tr]
        have "calls_during (runUploadKubeletConfig K c) (w, tr) =
          [Call_Cfg cfg, Call_Client client None,
           Call_Infof 1 ''[upload-config] Uploading the kubelet component config to a ConfigMap'',
           Call_CreateConfigMap cfg client,
           Call_Infof 1 ''[upload-config] Preserving the CRISocket information for the control-plane node'']"
          unfolding None by (intro calls_during_append) simp
        then show ?thesis by simp
      next
        case (Some a)
        obtain e4 w4 where r4: "patchnodephase_AnnotateCRISocket K client
           (Name (NodeRegistration (heap w3 a))) (CRISocket (NodeRegistration (heap w3 a))) w3
           = (e4, w4)"
          by (cases "patchnodephase_AnnotateCRISocket K client
           (Name (NodeRegistration (heap w3 a))) (CRISocket (NodeRegistration (heap w3 a))) w3")
        from kubelet_annotates [OF m r1 [unfolded Some] r2 r3 [unfolded Some] r4, of tr]
        have "calls_during (runUploadKubeletConfig K c) (w, tr) =
          [Call_Cfg cfg, Call_Client client None,
           Call_Infof 1 ''[upload-config] Uploading the kubelet component config to a ConfigMap'',
           Call_CreateConfigMap cfg client,
           Call_Infof 1 ''[upload-config] Preserving the CRISocket information for the control-plane node'',
           Call_AnnotateCRISocket client
             (Name (NodeRegistration (heap w3 a))) (CRISocket (NodeRegistration (heap w3 a)))]"
          unfolding Some by (intro calls_during_append) simp
        then show ?thesis by simp
      qed
    qed
  qed
qed

text \<open>
  The two run functions are different functions: on a context that resolves, the third
  call either makes is its own log line, whatever the collaborators do.
\<close>

lemma third_call_kubeadm:
  assumes "Cfg c = Some data_Cfg" and "Client c = Some data_Client"
    and "data_Cfg w = (cfg, w1)" and "data_Client w1 = ((client, None), w2)"
  shows "snd (snd (runUploadKubeadmConfig K c (w, []))) ! 2 =
    Call_Infof 1 ''[upload-config] Uploading the kubeadm ClusterConfiguration to a ConfigMap''"
proof -
  obtain r w3 where "uploadconfig_UploadConfiguration K cfg client w2 = (r, w3)"
    by (cases "uploadconfig_UploadConfiguration K cfg client w2")
  from kubeadm_resolved [OF assms this, of "[]"] show ?thesis
    by simp
qed

lemma third_call_kubelet:
  assumes "Cfg c = Some data_Cfg" and "Client c = Some data_Client"
    and "data_Cfg w = (None, w1)" and "data_Client w1 = ((client, None), w2)"
  shows "snd (snd (runUploadKubeletConfig K c (w, []))) ! 2 =
    Call_Infof 1 ''[upload-config] Uploading the kubelet component config to a ConfigMap''"
proof -
  obtain r w3 where r3: "kubeletphase_CreateConfigMap K None client w2 = (r, w3)"
    by (cases "kubeletphase_CreateConfigMap K None client w2")
  show ?thesis
  proof (cases r)
    case None
    from kubelet_nil_cfg [OF assms r3 [unfolded None], of "[]"] show ?thesis
      by simp
  next
    case (Some E)
    from kubelet_create_fails [OF assms r3 [unfolded Some], of "[]"] show ?thesis
      by simp
  qed
qed

lemma run_functions_differ:
  fixes K :: "('z, 'x) collaborators"
  shows "runUploadKubeadmConfig K \<noteq> runUploadKubeletConfig K"
proof
  assume eq: "runUploadKubeadmConfig K = runUploadKubeletConfig K"
  define c :: "('z, 'x) RunData"
    where "c = \<lparr>Cfg = Some (\<lambda>w. (None, w)), Client = Some (\<lambda>w. ((None, None), w))\<rparr>"
  fix w :: "('z, 'x) world"
  have m: "Cfg c = Some (\<lambda>w. (None, w))" "Client c = Some (\<lambda>w. ((None, None), w))"
    by (simp_all add: c_def)
  have "snd (snd (runUploadKubeadmConfig K c (w, []))) ! 2 =
    Call_Infof 1 ''[upload-config] Uploading the kubeadm ClusterConfiguration to a ConfigMap''"
    by (rule third_call_kubeadm [OF m]) simp_all
  moreover have "snd (snd (runUploadKubeletConfig K c (w, []))) ! 2 =
    Call_Infof 1 ''[upload-config] Uploading the kubelet component config to a ConfigMap''"
    by (rule third_call_kubelet [OF m]) simp_all
  ultimately show False
    by (simp add: eq)
qed

subsection \<open>The test doubles\<close>

lemma mock_data_Cfg: "Cfg (mock_data r) = Some mock_Cfg"
  by (simp add: mock_data_def)

lemma mock_data_Client: "Client (mock_data r) = Some (mock_Client r)"
  by (simp add: mock_data_def)

lemma mock_Cfg_returns: "mock_Cfg v = (Some 0, v)"
  by (simp add: mock_Cfg_def)

lemma mock_Client_returns: "mock_Client r v = ((Some (Clientset 1), r), v)"
  by (simp add: mock_Client_def)

lemma mock_UploadConfiguration_returns:
  "uploadconfig_UploadConfiguration (mock_collaborators upload create annotate) p k v =
     (upload, written upload v)"
  by (simp add: mock_collaborators_def)

lemma mock_CreateConfigMap_returns:
  "kubeletphase_CreateConfigMap (mock_collaborators upload create annotate) p k v =
     (create, written create v)"
  by (simp add: mock_collaborators_def)

lemma mock_AnnotateCRISocket_returns:
  "patchnodephase_AnnotateCRISocket (mock_collaborators upload create annotate) k n s v =
     (annotate, written annotate v)"
  by (simp add: mock_collaborators_def)

lemma written_heap: "heap (written r v) = heap v"
  by (simp add: written_def)

lemma world0_heap: "heap world0 a = node1"
  by (simp add: world0_def)

lemma node1_registration:
  "NodeRegistration node1 = \<lparr>Name = ''node-1'', CRISocket = ''unix:///run/x.sock''\<rparr>"
  by (simp add: node1_def)

lemma renaming_data_Cfg: "Cfg renaming_data = Some mock_Cfg"
  by (simp add: renaming_data_def)

lemma renaming_data_Client: "Client renaming_data = Some renaming_Client"
  by (simp add: renaming_data_def)

lemma renaming_Client_returns:
  "renaming_Client v = ((Some (Clientset 1), None), rename_node 0 ''node-2'' v)"
  by (simp add: renaming_Client_def)

lemma renaming_CreateConfigMap_returns:
  "kubeletphase_CreateConfigMap renaming_collaborators (Some a) k v =
     (None, rename_node a ''node-2'' v)"
  by (simp add: renaming_collaborators_def)

lemma renaming_AnnotateCRISocket_returns:
  "patchnodephase_AnnotateCRISocket renaming_collaborators k n s v = (None, v)"
  by (simp add: renaming_collaborators_def)

lemma rename_node_registration:
  "NodeRegistration (heap (rename_node a n v) a) = (NodeRegistration (heap v a))\<lparr>Name := n\<rparr>"
  by (simp add: rename_node_def)

section \<open>The claims\<close>

text \<open>
  Throughout, a context that passes the capability check is one with \<open>Cfg c = Some data_Cfg\<close>
  and \<open>Client c = Some data_Client\<close>; \<open>w\<close> is the world and \<open>tr\<close> the log when the
  function is entered, \<open>w1\<close> the world after \<^verbatim>\<open>Cfg()\<close>, \<open>w2\<close> after \<^verbatim>\<open>Client()\<close>,
  and so on through the collaborator calls.
\<close>

text \<open>
  C1. In the kubelet run function, on a context that passes the capability check and
  whose \<^verbatim>\<open>Client()\<close> succeeds: if \<^verbatim>\<open>CreateConfigMap\<close> fails with error \<open>E\<close>, the
  function returns \<open>E\<close> wrapped with "error creating kubelet configuration ConfigMap",
  and the invocation makes no call of \<^verbatim>\<open>AnnotateCRISocket\<close>.
\<close>

theorem kubelet_configmap_failure_skips_annotation:
  assumes "Cfg c = Some data_Cfg" and "Client c = Some data_Client"
    and "data_Cfg w = (cfg, w1)" and "data_Client w1 = ((client, None), w2)"
    and "kubeletphase_CreateConfigMap K cfg client w2 = (Some E, w3)"
  shows "fst (runUploadKubeletConfig K c (w, tr)) =
           Inr (errors_Wrap (Some E) ''error creating kubelet configuration ConfigMap'')
       \<and> filter is_AnnotateCRISocket (calls_during (runUploadKubeletConfig K c) (w, tr)) = []"
proof -
  note run = kubelet_create_fails [OF assms, of tr]
  have "calls_during (runUploadKubeletConfig K c) (w, tr) =
      [Call_Cfg cfg, Call_Client client None,
       Call_Infof 1 ''[upload-config] Uploading the kubelet component config to a ConfigMap'',
       Call_CreateConfigMap cfg client]"
    by (rule calls_during_append) (simp add: run)
  then show ?thesis
    by (simp add: run errors_Wrap_def)
qed

theorem kubelet_configmap_failure_skips_annotation_witness:
  "fst (runUploadKubeletConfig
          (mock_collaborators None (Some (fundamental ''quota exceeded'')) None)
          (mock_data None) (world0, [])) =
     Inr (Some (withMessage (fundamental ''quota exceeded'')
                  ''error creating kubelet configuration ConfigMap''))
   \<and> filter is_AnnotateCRISocket
         (calls_during
            (runUploadKubeletConfig
               (mock_collaborators None (Some (fundamental ''quota exceeded'')) None)
               (mock_data None))
            (world0, [])) = []"
  using kubelet_configmap_failure_skips_annotation
    [where c = "mock_data None" and w = world0 and tr = "[]"
       and K = "mock_collaborators None (Some (fundamental ''quota exceeded'')) None",
     OF mock_data_Cfg mock_data_Client mock_Cfg_returns mock_Client_returns
       mock_CreateConfigMap_returns]
  by (simp add: errors_Wrap_def)

text \<open>
  C2. In the kubeadm run function, on a context that resolves successfully: the result is
  nil when \<^verbatim>\<open>UploadConfiguration\<close> succeeds; when it fails with \<open>E\<close>, the result is \<open>E\<close>
  wrapped with "error uploading the kubeadm ClusterConfiguration" (which is what
  \<open>errors_Wrap\<close> makes of \<open>E\<close>), and the message of the result contains the prefix and
  the message of \<open>E\<close>.
\<close>

theorem kubeadm_upload_outcome:
  assumes "Cfg c = Some data_Cfg" and "Client c = Some data_Client"
    and "data_Cfg w = (cfg, w1)" and "data_Client w1 = ((client, None), w2)"
    and "uploadconfig_UploadConfiguration K cfg client w2 = (r, w3)"
  shows "case r of
           None \<Rightarrow> fst (runUploadKubeadmConfig K c (w, tr)) = Inr None
         | Some E \<Rightarrow>
             fst (runUploadKubeadmConfig K c (w, tr)) =
               Inr (Some (withMessage E ''error uploading the kubeadm ClusterConfiguration''))
           \<and> errors_Wrap (Some E) ''error uploading the kubeadm ClusterConfiguration'' =
               Some (withMessage E ''error uploading the kubeadm ClusterConfiguration'')
           \<and> sublist ''error uploading the kubeadm ClusterConfiguration''
               (Error (withMessage E ''error uploading the kubeadm ClusterConfiguration''))
           \<and> sublist (Error E)
               (Error (withMessage E ''error uploading the kubeadm ClusterConfiguration''))"
proof (cases r)
  case None
  with kubeadm_resolved [OF assms, of tr] show ?thesis by simp
next
  case (Some E)
  show ?thesis
    using Some kubeadm_resolved [OF assms, of tr]
    by (simp add: errors_Wrap_def Error_withMessage_contains del: Error.simps)
qed

theorem kubeadm_upload_outcome_witness:
  "fst (runUploadKubeadmConfig (mock_collaborators None None None) (mock_data None) (world0, []))
     = Inr None
   \<and> fst (runUploadKubeadmConfig
             (mock_collaborators (Some (fundamental ''forbidden'')) None None)
             (mock_data None) (world0, []))
     = Inr (Some (withMessage (fundamental ''forbidden'')
                    ''error uploading the kubeadm ClusterConfiguration''))
   \<and> Error (withMessage (fundamental ''forbidden'')
               ''error uploading the kubeadm ClusterConfiguration'')
     = ''error uploading the kubeadm ClusterConfiguration: forbidden''"
  using
    kubeadm_upload_outcome
      [where c = "mock_data None" and w = world0 and tr = "[]"
         and K = "mock_collaborators None None None",
       OF mock_data_Cfg mock_data_Client mock_Cfg_returns mock_Client_returns
         mock_UploadConfiguration_returns]
    kubeadm_upload_outcome
      [where c = "mock_data None" and w = world0 and tr = "[]"
         and K = "mock_collaborators (Some (fundamental ''forbidden'')) None None",
       OF mock_data_Cfg mock_data_Client mock_Cfg_returns mock_Client_returns
         mock_UploadConfiguration_returns]
  by simp



text \<open>
  C4. On a context that passes the capability check and whose \<^verbatim>\<open>Client()\<close> fails with
  \<open>E\<close> (whatever client value comes with it), both run functions return exactly \<open>E\<close>, not
  wrapped, and neither invocation calls a collaborator.
\<close>

theorem client_failure_is_returned_unwrapped:
  assumes "Cfg c = Some data_Cfg" and "Client c = Some data_Client"
    and "data_Cfg w = (cfg, w1)" and "data_Client w1 = ((client, Some E), w2)"
  shows "fst (runUploadKubeadmConfig K c (w, tr)) = Inr (Some E)
       \<and> fst (runUploadKubeletConfig K c (w, tr)) = Inr (Some E)
       \<and> filter is_collaborator (calls_during (runUploadKubeadmConfig K c) (w, tr)) = []
       \<and> filter is_collaborator (calls_during (runUploadKubeletConfig K c) (w, tr)) = []"
proof -
  note kubeadm = kubeadm_client_fails [OF assms, of K tr]
  note kubelet = kubelet_client_fails [OF assms, of K tr]
  have "calls_during (runUploadKubeadmConfig K c) (w, tr) =
      [Call_Cfg cfg, Call_Client client (Some E)]"
    by (rule calls_during_append) (simp add: kubeadm)
  moreover have "calls_during (runUploadKubeletConfig K c) (w, tr) =
      [Call_Cfg cfg, Call_Client client (Some E)]"
    by (rule calls_during_append) (simp add: kubelet)
  ultimately show ?thesis
    by (simp add: kubeadm kubelet is_collaborator_def)
qed

theorem client_failure_is_returned_unwrapped_witness:
  "fst (runUploadKubeadmConfig (mock_collaborators None None None)
          (mock_data (Some (fundamental ''no reachable control plane''))) (world0, []))
     = Inr (Some (fundamental ''no reachable control plane''))
   \<and> fst (runUploadKubeletConfig (mock_collaborators None None None)
          (mock_data (Some (fundamental ''no reachable control plane''))) (world0, []))
     = Inr (Some (fundamental ''no reachable control plane''))
   \<and> filter is_collaborator
         (calls_during
            (runUploadKubeadmConfig (mock_collaborators None None None)
               (mock_data (Some (fundamental ''no reachable control plane''))))
            (world0, [])) = []
   \<and> filter is_collaborator
         (calls_during
            (runUploadKubeletConfig (mock_collaborators None None None)
               (mock_data (Some (fundamental ''no reachable control plane''))))
            (world0, [])) = []"
  using client_failure_is_returned_unwrapped
    [where c = "mock_data (Some (fundamental ''no reachable control plane''))"
       and w = world0 and tr = "[]" and K = "mock_collaborators None None None",
     OF mock_data_Cfg mock_data_Client mock_Cfg_returns mock_Client_returns]
  by simp

text \<open>
  C5. On a context that fails the capability check (it lacks \<^verbatim>\<open>Cfg()\<close> or
  \<^verbatim>\<open>Client()\<close>), \<open>getUploadConfigData\<close> returns nil, nil and the error
  "upload-config phase invoked with an invalid data struct", and leaves world and log as
  they were: it calls neither accessor. Both run functions return that error, and they
  too leave world and log as they were: no accessor and no collaborator is called.
\<close>

theorem invalid_context_is_rejected_before_any_call:
  assumes "Cfg c = None \<or> Client c = None"
  shows "getUploadConfigData c s =
           ((None, None,
             errors_New ''upload-config phase invoked with an invalid data struct''), s)
       \<and> calls_during (getUploadConfigData c) s = []
       \<and> runUploadKubeadmConfig K c s =
           (Inr (errors_New ''upload-config phase invoked with an invalid data struct''), s)
       \<and> runUploadKubeletConfig K c s =
           (Inr (errors_New ''upload-config phase invoked with an invalid data struct''), s)"
  using assms
  by (simp add: getUploadConfigData_invalid kubeadm_invalid kubelet_invalid errors_New_def
      calls_during_def)

theorem invalid_context_is_rejected_before_any_call_witness:
  "getUploadConfigData foreign_data (world0, []) =
     ((None, None,
       Some (fundamental ''upload-config phase invoked with an invalid data struct'')),
      (world0, []))
   \<and> calls_during (getUploadConfigData foreign_data) (world0, []) = []
   \<and> runUploadKubeadmConfig (mock_collaborators None None None) foreign_data (world0, []) =
       (Inr (Some (fundamental ''upload-config phase invoked with an invalid data struct'')),
        (world0, []))
   \<and> runUploadKubeletConfig (mock_collaborators None None None) foreign_data (world0, []) =
       (Inr (Some (fundamental ''upload-config phase invoked with an invalid data struct'')),
        (world0, []))"
proof -
  have "Cfg foreign_data = None \<or> Client foreign_data = None"
    by (simp add: foreign_data_def)
  from invalid_context_is_rejected_before_any_call
    [OF this, of "(world0, [])" "mock_collaborators None None None"]
  show ?thesis
    by (simp add: errors_New_def)
qed

text \<open>
  C6 (as amended). \<^verbatim>\<open>cfg\<close> is a pointer, and the kubelet run function reads
  \<^verbatim>\<open>cfg.NodeRegistration\<close> after \<^verbatim>\<open>CreateConfigMap\<close> has returned. On a context that
  resolves successfully, with a \<^verbatim>\<open>CreateConfigMap\<close> that succeeds, a configuration whose
  \<^verbatim>\<open>NodeRegistration\<close> has \<^verbatim>\<open>Name\<close> "node-1" and \<^verbatim>\<open>CRISocket\<close> "unix:///run/x.sock"
  at that moment, and an \<^verbatim>\<open>AnnotateCRISocket\<close> that succeeds: the function returns nil,
  the world is the one \<^verbatim>\<open>AnnotateCRISocket\<close> left, the invocation makes exactly the six
  calls listed, and \<^verbatim>\<open>AnnotateCRISocket\<close> is called exactly once, with "node-1" and
  "unix:///run/x.sock".
\<close>

theorem kubelet_end_to_end_node1:
  assumes "Cfg c = Some data_Cfg" and "Client c = Some data_Client"
    and "data_Cfg w = (Some a, w1)"
    and "data_Client w1 = ((client, None), w2)"
    and "kubeletphase_CreateConfigMap K (Some a) client w2 = (None, w3)"
    and "Name (NodeRegistration (heap w3 a)) = ''node-1''"
    and "CRISocket (NodeRegistration (heap w3 a)) = ''unix:///run/x.sock''"
    and "patchnodephase_AnnotateCRISocket K client ''node-1'' ''unix:///run/x.sock'' w3 = (None, w4)"
  shows "runUploadKubeletConfig K c (w, tr) =
           (Inr None,
            (w4, tr @ [Call_Cfg (Some a), Call_Client client None,
               Call_Infof 1 ''[upload-config] Uploading the kubelet component config to a ConfigMap'',
               Call_CreateConfigMap (Some a) client,
               Call_Infof 1 ''[upload-config] Preserving the CRISocket information for the control-plane node'',
               Call_AnnotateCRISocket client ''node-1'' ''unix:///run/x.sock'']))
       \<and> filter is_AnnotateCRISocket (calls_during (runUploadKubeletConfig K c) (w, tr)) =
           [Call_AnnotateCRISocket client ''node-1'' ''unix:///run/x.sock'']"
proof -
  have "patchnodephase_AnnotateCRISocket K client
           (Name (NodeRegistration (heap w3 a))) (CRISocket (NodeRegistration (heap w3 a))) w3
         = (None, w4)"
    using assms(8) by (simp only: assms(6,7))
  note run = kubelet_annotates [OF assms(1,2,3,4,5) this, of tr, unfolded assms(6,7)]
  have "calls_during (runUploadKubeletConfig K c) (w, tr) =
      [Call_Cfg (Some a), Call_Client client None,
       Call_Infof 1 ''[upload-config] Uploading the kubelet component config to a ConfigMap'',
       Call_CreateConfigMap (Some a) client,
       Call_Infof 1 ''[upload-config] Preserving the CRISocket information for the control-plane node'',
       Call_AnnotateCRISocket client ''node-1'' ''unix:///run/x.sock'']"
    by (rule calls_during_append) (simp add: run)
  then show ?thesis
    by (simp add: run)
qed

theorem kubelet_end_to_end_node1_witness:
  "runUploadKubeletConfig (mock_collaborators None None None) (mock_data None) (world0, []) =
     (Inr None,
      (written None (written None world0),
       [Call_Cfg (Some 0), Call_Client (Some (Clientset 1)) None,
        Call_Infof 1 ''[upload-config] Uploading the kubelet component config to a ConfigMap'',
        Call_CreateConfigMap (Some 0) (Some (Clientset 1)),
        Call_Infof 1 ''[upload-config] Preserving the CRISocket information for the control-plane node'',
        Call_AnnotateCRISocket (Some (Clientset 1)) ''node-1'' ''unix:///run/x.sock'']))
   \<and> filter is_AnnotateCRISocket
         (calls_during
            (runUploadKubeletConfig (mock_collaborators None None None) (mock_data None))
            (world0, [])) =
       [Call_AnnotateCRISocket (Some (Clientset 1)) ''node-1'' ''unix:///run/x.sock'']"
proof -
  have name: "Name (NodeRegistration (heap (written None world0) 0)) = ''node-1''"
    and sock: "CRISocket (NodeRegistration (heap (written None world0) 0)) = ''unix:///run/x.sock''"
    by (simp_all add: written_heap world0_heap node1_registration)
  from kubelet_end_to_end_node1
    [where c = "mock_data None" and w = world0 and tr = "[]"
       and K = "mock_collaborators None None None",
     OF mock_data_Cfg mock_data_Client mock_Cfg_returns mock_Client_returns
       mock_CreateConfigMap_returns name sock mock_AnnotateCRISocket_returns]
  show ?thesis by simp
qed

text \<open>
  C6 as stated fails. The configuration \<^verbatim>\<open>Cfg()\<close> returns has \<^verbatim>\<open>Name\<close> "node-1" and
  \<^verbatim>\<open>CRISocket\<close> "unix:///run/x.sock", \<^verbatim>\<open>Client()\<close> succeeds and every collaborator call
  succeeds, but \<^verbatim>\<open>CreateConfigMap\<close> assigns "node-2" to \<^verbatim>\<open>cfg.NodeRegistration.Name\<close>:
  the run function returns nil and calls \<^verbatim>\<open>AnnotateCRISocket\<close> once, with "node-2".
\<close>

theorem kubelet_end_to_end_node1_counterexample:
  "Cfg (mock_data None) = Some mock_Cfg
   \<and> Client (mock_data None) = Some (mock_Client None)
   \<and> mock_Cfg world0 = (Some 0, world0)
   \<and> NodeRegistration (heap world0 0) = \<lparr>Name = ''node-1'', CRISocket = ''unix:///run/x.sock''\<rparr>
   \<and> mock_Client None world0 = ((Some (Clientset 1), None), world0)
   \<and> fst (kubeletphase_CreateConfigMap renaming_collaborators (Some 0) (Some (Clientset 1)) world0)
       = None
   \<and> fst (patchnodephase_AnnotateCRISocket renaming_collaborators (Some (Clientset 1))
            ''node-2'' ''unix:///run/x.sock'' (rename_node 0 ''node-2'' world0)) = None
   \<and> fst (runUploadKubeletConfig renaming_collaborators (mock_data None) (world0, [])) = Inr None
   \<and> filter is_AnnotateCRISocket
         (calls_during (runUploadKubeletConfig renaming_collaborators (mock_data None)) (world0, []))
       = [Call_AnnotateCRISocket (Some (Clientset 1)) ''node-2'' ''unix:///run/x.sock'']
   \<and> filter is_AnnotateCRISocket
         (calls_during (runUploadKubeletConfig renaming_collaborators (mock_data None)) (world0, []))
       \<noteq> [Call_AnnotateCRISocket (Some (Clientset 1)) ''node-1'' ''unix:///run/x.sock'']"
proof -
  have run: "runUploadKubeletConfig renaming_collaborators (mock_data None) (world0, []) =
     (Inr None,
      (rename_node 0 ''node-2'' world0,
       [] @ [Call_Cfg (Some 0), Call_Client (Some (Clientset 1)) None,
        Call_Infof 1 ''[upload-config] Uploading the kubelet component config to a ConfigMap'',
        Call_CreateConfigMap (Some 0) (Some (Clientset 1)),
        Call_Infof 1 ''[upload-config] Preserving the CRISocket information for the control-plane node'',
        Call_AnnotateCRISocket (Some (Clientset 1)) ''node-2'' ''unix:///run/x.sock'']))"
    using kubelet_annotates
      [where c = "mock_data None" and w = world0 and tr = "[]" and K = renaming_collaborators,
       OF mock_data_Cfg mock_data_Client mock_Cfg_returns mock_Client_returns
         renaming_CreateConfigMap_returns renaming_AnnotateCRISocket_returns]
    by (simp add: rename_node_registration world0_heap node1_registration)
  have "calls_during (runUploadKubeletConfig renaming_collaborators (mock_data None)) (world0, [])
      = [Call_Cfg (Some 0), Call_Client (Some (Clientset 1)) None,
        Call_Infof 1 ''[upload-config] Uploading the kubelet component config to a ConfigMap'',
        Call_CreateConfigMap (Some 0) (Some (Clientset 1)),
        Call_Infof 1 ''[upload-config] Preserving the CRISocket information for the control-plane node'',
        Call_AnnotateCRISocket (Some (Clientset 1)) ''node-2'' ''unix:///run/x.sock'']"
    by (rule calls_during_append) (simp add: run)
  then show ?thesis
    by (simp add: run mock_data_Cfg mock_data_Client mock_Cfg_returns mock_Client_returns
        world0_heap node1_registration renaming_CreateConfigMap_returns
        renaming_AnnotateCRISocket_returns)
qed

text \<open>
  C7. In every invocation of the kubelet run function, whatever the context and the
  collaborators: \<^verbatim>\<open>Client()\<close> is called at most once; every client handed to a
  collaborator is the one that call returned; and no collaborator is called before it.
\<close>

theorem kubelet_client_obtained_once_and_reused:
  "length (concat (map client_obtained (calls_during (runUploadKubeletConfig K c) (w, tr)))) \<le> 1
   \<and> set (concat (map client_passed (calls_during (runUploadKubeletConfig K c) (w, tr))))
       \<subseteq> set (concat (map client_obtained (calls_during (runUploadKubeletConfig K c) (w, tr))))
   \<and> concat (map client_passed
        (takeWhile (\<lambda>e. \<not> is_Client e) (calls_during (runUploadKubeletConfig K c) (w, tr)))) = []"
  using kubelet_log_cases [of K c w tr]
  by (elim disjE exE conjE) simp_all

theorem kubelet_client_obtained_once_and_reused_witness:
  "concat (map client_obtained
     (calls_during (runUploadKubeletConfig (mock_collaborators None None None) (mock_data None))
        (world0, []))) = [Some (Clientset 1)]
   \<and> concat (map client_passed
     (calls_during (runUploadKubeletConfig (mock_collaborators None None None) (mock_data None))
        (world0, []))) = [Some (Clientset 1), Some (Clientset 1)]"
proof -
  let ?log = "calls_during
    (runUploadKubeletConfig (mock_collaborators None None None) (mock_data None)) (world0, [])"
  have passed: "concat (map client_passed ?log) = [Some (Clientset 1), Some (Clientset 1)]"
    by (simp add: calls_during_def
        kubelet_annotates [OF mock_data_Cfg mock_data_Client mock_Cfg_returns mock_Client_returns
          mock_CreateConfigMap_returns mock_AnnotateCRISocket_returns])
  from kubelet_client_obtained_once_and_reused
    [of "mock_collaborators None None None" "mock_data None" world0 "[]"]
  have "length (concat (map client_obtained ?log)) \<le> 1"
    and "Some (Clientset 1) \<in> set (concat (map client_obtained ?log))"
    by (simp_all add: passed)
  then have "concat (map client_obtained ?log) = [Some (Clientset 1)]"
    by (cases "concat (map client_obtained ?log)") auto
  with passed show ?thesis
    by simp
qed

text \<open>
  C8. The tree \<open>NewUploadConfigPhase\<close> returns: the root is named "upload-config", its
  one alias is "uploadconfig", and it has exactly two children, "kubeadm" and "kubelet"
  in that order. Each child has its own short description, the long description and the
  example declared for it, its own run function (the two run functions are different
  functions), and the two flags \<^verbatim>\<open>options.CfgPath\<close> and \<^verbatim>\<open>options.KubeconfigPath\<close>.
\<close>

theorem upload_config_phase_tree:
  "Name_Phase (NewUploadConfigPhase X K) = ''upload-config''
   \<and> Aliases (NewUploadConfigPhase X K) = [''uploadconfig'']
   \<and> map Name_Phase (Phases (NewUploadConfigPhase X K)) = [''kubeadm'', ''kubelet'']
   \<and> map Short (Phases (NewUploadConfigPhase X K)) =
       [''Uploads the kubeadm ClusterConfiguration to a ConfigMap'',
        ''Uploads the kubelet component config to a ConfigMap'']
   \<and> map Long (Phases (NewUploadConfigPhase X K)) =
       [uploadKubeadmConfigLongDesc X, uploadKubeletConfigLongDesc X]
   \<and> map Example (Phases (NewUploadConfigPhase X K)) =
       [uploadKubeadmConfigExample X, uploadKubeletConfigExample X]
   \<and> map Run (Phases (NewUploadConfigPhase X K)) =
       [Some (runUploadKubeadmConfig K), Some (runUploadKubeletConfig K)]
   \<and> distinct (map Run (Phases (NewUploadConfigPhase X K)))
   \<and> map CmdFlags (Phases (NewUploadConfigPhase X K)) =
       [[options_CfgPath X, options_KubeconfigPath X],
        [options_CfgPath X, options_KubeconfigPath X]]"
  using run_functions_differ [of K]
  by (simp add: NewUploadConfigPhase_def getUploadConfigPhaseFlags_def)

theorem upload_config_phase_tree_witness:
  "map Name_Phase (Phases (NewUploadConfigPhase mock_externs (mock_collaborators None None None)))
     = [''kubeadm'', ''kubelet'']
   \<and> map CmdFlags (Phases (NewUploadConfigPhase mock_externs (mock_collaborators None None None)))
     = [[''config'', ''kubeconfig''], [''config'', ''kubeconfig'']]
   \<and> map Example (Phases (NewUploadConfigPhase mock_externs (mock_collaborators None None None)))
     = [[NL, TAB, TAB] @ ''# uploads the configuration of your cluster'' @ [NL, TAB, TAB] @
          ''kubeadm alpha phase upload-config --config=myConfig.yaml'' @ [NL, TAB, TAB],
        [NL, TAB, TAB] @
          ''# Uploads the kubelet configuration from the kubeadm Config file to a ConfigMap in the cluster.'' @
          [NL, TAB, TAB] @
          ''kubeadm init phase upload-config kubelet --config kubeadm.yaml'' @ [NL, TAB, TAB]]"
  using upload_config_phase_tree [of mock_externs "mock_collaborators None None None"]
  by (simp add: mock_externs_def uploadKubeadmConfigExample_def uploadKubeletConfigExample_def)

text \<open>
  C9 (as amended). Neither run function writes to the configuration itself: it reads it
  and hands the pointer to the collaborators. On a context that passes the capability
  check, the world after either run function returns or panics, every configuration
  included, is exactly the world left by the external calls of the invocation, in order:
  \<^verbatim>\<open>Client()\<close> alone when it fails; otherwise \<^verbatim>\<open>UploadConfiguration\<close> for the kubeadm
  function, and for the kubelet function \<^verbatim>\<open>CreateConfigMap\<close> when it fails or \<^verbatim>\<open>cfg\<close>
  is nil, else \<^verbatim>\<open>AnnotateCRISocket\<close>. So the configuration is as \<^verbatim>\<open>Cfg()\<close> produced
  it exactly when those calls, taken together, leave it so.
\<close>

theorem run_functions_write_only_through_calls:
  assumes "Cfg c = Some data_Cfg" and "Client c = Some data_Client"
    and "data_Cfg w = (cfg, w1)" and "data_Client w1 = ((client, err), w2)"
  shows "fst (snd (runUploadKubeadmConfig K c (w, tr))) =
           (if err \<noteq> None then w2
            else snd (uploadconfig_UploadConfiguration K cfg client w2))
       \<and> fst (snd (runUploadKubeletConfig K c (w, tr))) =
           (if err \<noteq> None then w2
            else (case kubeletphase_CreateConfigMap K cfg client w2 of
                    (e3, w3) \<Rightarrow>
                      if e3 \<noteq> None then w3
                      else (case cfg of
                              None \<Rightarrow> w3
                            | Some a \<Rightarrow>
                                snd (patchnodephase_AnnotateCRISocket K client
                                       (Name (NodeRegistration (heap w3 a)))
                                       (CRISocket (NodeRegistration (heap w3 a))) w3))))"
proof (cases err)
  case (Some E)
  show ?thesis
    using kubeadm_client_fails [OF assms [unfolded Some], of K tr]
      kubelet_client_fails [OF assms [unfolded Some], of K tr] Some
    by simp
next
  case None
  note r2 = assms(4) [unfolded None]
  obtain e w3' where up: "uploadconfig_UploadConfiguration K cfg client w2 = (e, w3')"
    by (cases "uploadconfig_UploadConfiguration K cfg client w2")
  have kubeadm: "fst (snd (runUploadKubeadmConfig K c (w, tr))) =
      snd (uploadconfig_UploadConfiguration K cfg client w2)"
    using kubeadm_resolved [OF assms(1,2,3) r2 up, of tr] by (simp add: up)
  obtain e3 w3 where r3: "kubeletphase_CreateConfigMap K cfg client w2 = (e3, w3)"
    by (cases "kubeletphase_CreateConfigMap K cfg client w2")
  have kubelet: "fst (snd (runUploadKubeletConfig K c (w, tr))) =
      (if e3 \<noteq> None then w3
       else (case cfg of
               None \<Rightarrow> w3
             | Some a \<Rightarrow>
                 snd (patchnodephase_AnnotateCRISocket K client
                        (Name (NodeRegistration (heap w3 a)))
                        (CRISocket (NodeRegistration (heap w3 a))) w3)))"
  proof (cases e3)
    case (Some E)
    show ?thesis
      using kubelet_create_fails [OF assms(1,2,3) r2 r3 [unfolded Some], of tr] Some by simp
  next
    case None
    note r3 = r3 [unfolded None]
    show ?thesis
    proof (cases cfg)
      case None
      show ?thesis
        using kubelet_nil_cfg [OF assms(1,2) assms(3) [unfolded None] r2 r3 [unfolded None], of tr]
          None \<open>e3 = None\<close>
        by simp
    next
      case (Some a)
      obtain e4 w4 where r4: "patchnodephase_AnnotateCRISocket K client
           (Name (NodeRegistration (heap w3 a))) (CRISocket (NodeRegistration (heap w3 a))) w3
           = (e4, w4)"
        by (cases "patchnodephase_AnnotateCRISocket K client
           (Name (NodeRegistration (heap w3 a))) (CRISocket (NodeRegistration (heap w3 a))) w3")
      show ?thesis
        using kubelet_annotates [OF assms(1,2) assms(3) [unfolded Some] r2 r3 [unfolded Some] r4,
            of tr] Some \<open>e3 = None\<close>
        by (simp add: r4)
    qed
  qed
  from kubeadm kubelet show ?thesis
    by (simp add: None r3)
qed

theorem run_functions_write_only_through_calls_witness:
  "fst (snd (runUploadKubeadmConfig (mock_collaborators None None None) (mock_data None)
       (world0, []))) = written None world0
   \<and> fst (snd (runUploadKubeletConfig (mock_collaborators None None None) (mock_data None)
       (world0, []))) = written None (written None world0)
   \<and> heap (fst (snd (runUploadKubeadmConfig (mock_collaborators None None None) (mock_data None)
       (world0, [])))) 0 = node1
   \<and> heap (fst (snd (runUploadKubeletConfig (mock_collaborators None None None) (mock_data None)
       (world0, [])))) 0 = node1"
  using run_functions_write_only_through_calls
    [where c = "mock_data None" and w = world0 and tr = "[]"
       and K = "mock_collaborators None None None",
     OF mock_data_Cfg mock_data_Client mock_Cfg_returns mock_Client_returns]
  by (simp add: mock_UploadConfiguration_returns mock_CreateConfigMap_returns
      mock_AnnotateCRISocket_returns written_heap world0_heap)

text \<open>
  C9 as stated fails. The context's \<^verbatim>\<open>Client()\<close> assigns "node-2" to
  \<^verbatim>\<open>cfg.NodeRegistration.Name\<close> of the configuration \<^verbatim>\<open>Cfg()\<close> has just returned with
  \<^verbatim>\<open>Name\<close> "node-1"; the collaborators write nothing to it. After either run function
  returns, the configuration is not the one \<^verbatim>\<open>Cfg()\<close> produced.
\<close>

theorem configuration_renamed_during_run_counterexample:
  "Cfg renaming_data = Some mock_Cfg
   \<and> Client renaming_data = Some renaming_Client
   \<and> mock_Cfg world0 = (Some 0, world0)
   \<and> Name (NodeRegistration (heap world0 0)) = ''node-1''
   \<and> Name (NodeRegistration (heap (fst (snd (runUploadKubeadmConfig
        (mock_collaborators None None None) renaming_data (world0, [])))) 0)) = ''node-2''
   \<and> Name (NodeRegistration (heap (fst (snd (runUploadKubeletConfig
        (mock_collaborators None None None) renaming_data (world0, [])))) 0)) = ''node-2''
   \<and> heap (fst (snd (runUploadKubeadmConfig
        (mock_collaborators None None None) renaming_data (world0, [])))) 0 \<noteq> heap world0 0
   \<and> heap (fst (snd (runUploadKubeletConfig
        (mock_collaborators None None None) renaming_data (world0, [])))) 0 \<noteq> heap world0 0"
proof -
  have kubeadm: "runUploadKubeadmConfig (mock_collaborators None None None) renaming_data
      (world0, []) =
     (Inr None,
      (written None (rename_node 0 ''node-2'' world0),
       [] @ [Call_Cfg (Some 0), Call_Client (Some (Clientset 1)) None,
        Call_Infof 1 ''[upload-config] Uploading the kubeadm ClusterConfiguration to a ConfigMap'',
        Call_UploadConfiguration (Some 0) (Some (Clientset 1))]))"
    using kubeadm_resolved
      [where c = renaming_data and w = world0 and tr = "[]"
         and K = "mock_collaborators None None None",
       OF renaming_data_Cfg renaming_data_Client mock_Cfg_returns renaming_Client_returns
         mock_UploadConfiguration_returns]
    by simp
  have kubelet: "runUploadKubeletConfig (mock_collaborators None None None) renaming_data
      (world0, []) =
     (Inr None,
      (written None (written None (rename_node 0 ''node-2'' world0)),
       [] @ [Call_Cfg (Some 0), Call_Client (Some (Clientset 1)) None,
        Call_Infof 1 ''[upload-config] Uploading the kubelet component config to a ConfigMap'',
        Call_CreateConfigMap (Some 0) (Some (Clientset 1)),
        Call_Infof 1 ''[upload-config] Preserving the CRISocket information for the control-plane node'',
        Call_AnnotateCRISocket (Some (Clientset 1)) ''node-2'' ''unix:///run/x.sock'']))"
    using kubelet_annotates
      [where c = renaming_data and w = world0 and tr = "[]"
         and K = "mock_collaborators None None None",
       OF renaming_data_Cfg renaming_data_Client mock_Cfg_returns renaming_Client_returns
         mock_CreateConfigMap_returns mock_AnnotateCRISocket_returns]
    by (simp add: written_heap rename_node_registration world0_heap node1_registration)
  have differ: "heap (rename_node 0 ''node-2'' world0) 0 \<noteq> heap world0 0"
  proof
    assume "heap (rename_node 0 ''node-2'' world0) 0 = heap world0 0"
    then have "Name (NodeRegistration (heap (rename_node 0 ''node-2'' world0) 0)) =
      Name (NodeRegistration (heap world0 0))"
      by simp
    then show False
      by (simp add: rename_node_registration world0_heap node1_registration)
  qed
  show ?thesis
    using differ
    by (simp add: kubeadm kubelet written_heap rename_node_registration world0_heap
        node1_registration renaming_data_Cfg renaming_data_Client mock_Cfg_returns)
qed

text \<open>
  C10. \<open>getUploadConfigData\<close>, in full. On a context that fails the capability check it
  returns nil, nil and the error "upload-config phase invoked with an invalid data
  struct", and calls nothing. On a context that passes it, it calls \<^verbatim>\<open>Cfg()\<close> and then
  \<^verbatim>\<open>Client()\<close>, once each, also when \<^verbatim>\<open>Client()\<close> fails; when \<^verbatim>\<open>Client()\<close> returns an
  error it returns nil, nil and exactly that error, whatever client came with it; when
  \<^verbatim>\<open>Client()\<close> returns no error it returns the pointer \<^verbatim>\<open>Cfg()\<close> returned, the client
  \<^verbatim>\<open>Client()\<close> returned and the nil error. In every case an error comes with a nil
  configuration and a nil client.
\<close>

theorem getUploadConfigData_order_and_results:
  "(Cfg c = None \<or> Client c = None \<longrightarrow>
      getUploadConfigData c (w, tr) =
        ((None, None,
          Some (fundamental ''upload-config phase invoked with an invalid data struct'')),
         (w, tr)))
   \<and> (\<forall>data_Cfg data_Client cfg w1 client err w2.
        Cfg c = Some data_Cfg \<and> Client c = Some data_Client
        \<and> data_Cfg w = (cfg, w1) \<and> data_Client w1 = ((client, err), w2) \<longrightarrow>
          getUploadConfigData c (w, tr) =
            ((if err = None then (cfg, client, None) else (None, None, err)),
             (w2, tr @ [Call_Cfg cfg, Call_Client client err]))
        \<and> calls_during (getUploadConfigData c) (w, tr) = [Call_Cfg cfg, Call_Client client err])
   \<and> (case fst (getUploadConfigData c (w, tr)) of
        (cfg', client', err') \<Rightarrow> err' \<noteq> None \<longrightarrow> cfg' = None \<and> client' = None)"
proof (intro conjI allI impI; (elim conjE)?)
  show "getUploadConfigData c (w, tr) =
        ((None, None,
          Some (fundamental ''upload-config phase invoked with an invalid data struct'')),
         (w, tr))" if "Cfg c = None \<or> Client c = None"
    using that by (rule getUploadConfigData_invalid)
next
  show "case fst (getUploadConfigData c (w, tr)) of
      (cfg', client', err') \<Rightarrow> err' \<noteq> None \<longrightarrow> cfg' = None \<and> client' = None"
  proof (cases "Cfg c = None \<or> Client c = None")
    case True
    then show ?thesis by (simp add: getUploadConfigData_invalid)
  next
    case False
    then obtain data_Cfg data_Client where
      m: "Cfg c = Some data_Cfg" "Client c = Some data_Client"
      by auto
    obtain cfg w1 where r1: "data_Cfg w = (cfg, w1)"
      by (cases "data_Cfg w")
    obtain client err w2 where r2: "data_Client w1 = ((client, err), w2)"
      by (cases "data_Client w1") auto
    show ?thesis
      by (simp add: getUploadConfigData_called [OF m r1 r2])
  qed
next
  fix data_Cfg data_Client cfg w1 client err w2
  assume m: "Cfg c = Some data_Cfg" "Client c = Some data_Client"
    and r1: "data_Cfg w = (cfg, w1)" and r2: "data_Client w1 = ((client, err), w2)"
  show "getUploadConfigData c (w, tr) =
            ((if err = None then (cfg, client, None) else (None, None, err)),
             (w2, tr @ [Call_Cfg cfg, Call_Client client err]))"
    by (simp add: getUploadConfigData_called [OF m r1 r2])
  show "calls_during (getUploadConfigData c) (w, tr) = [Call_Cfg cfg, Call_Client client err]"
    by (rule calls_during_append) (simp add: getUploadConfigData_called [OF m r1 r2])
qed

theorem getUploadConfigData_order_and_results_witness:
  "getUploadConfigData foreign_data (world0, []) =
     ((None, None, Some (fundamental ''upload-config phase invoked with an invalid data struct'')),
      (world0, []))
   \<and> getUploadConfigData (mock_data (Some (fundamental ''no reachable control plane'')))
          (world0, [])
     = ((None, None, Some (fundamental ''no reachable control plane'')),
        (world0,
         [Call_Cfg (Some 0),
          Call_Client (Some (Clientset 1)) (Some (fundamental ''no reachable control plane''))]))
   \<and> getUploadConfigData (mock_data None) (world0, [])
     = ((Some 0, Some (Clientset 1), None),
        (world0, [Call_Cfg (Some 0), Call_Client (Some (Clientset 1)) None]))
   \<and> calls_during (getUploadConfigData (mock_data None)) (world0, [])
     = [Call_Cfg (Some 0), Call_Client (Some (Clientset 1)) None]"
proof -
  let ?E = "fundamental ''no reachable control plane''"
  have invalid: "Cfg foreign_data = None \<or> Client foreign_data = None"
    by (simp add: foreign_data_def)
  have ok: "Cfg (mock_data None) = Some mock_Cfg \<and> Client (mock_data None) = Some (mock_Client None)
    \<and> mock_Cfg world0 = (Some 0, world0)
    \<and> mock_Client None world0 = ((Some (Clientset 1), None), world0)"
    by (simp add: mock_data_Cfg mock_data_Client mock_Cfg_returns mock_Client_returns)
  have bad: "Cfg (mock_data (Some ?E)) = Some mock_Cfg
    \<and> Client (mock_data (Some ?E)) = Some (mock_Client (Some ?E))
    \<and> mock_Cfg world0 = (Some 0, world0)
    \<and> mock_Client (Some ?E) world0 = ((Some (Clientset 1), Some ?E), world0)"
    by (simp add: mock_data_Cfg mock_data_Client mock_Cfg_returns mock_Client_returns)
  note t0 = getUploadConfigData_order_and_results [of foreign_data world0 "[]"]
  note t1 = getUploadConfigData_order_and_results [of "mock_data None" world0 "[]"]
  note t2 = getUploadConfigData_order_and_results [of "mock_data (Some ?E)" world0 "[]"]
  from t0 [THEN conjunct1] invalid have
    "getUploadConfigData foreign_data (world0, []) =
     ((None, None, Some (fundamental ''upload-config phase invoked with an invalid data struct'')),
      (world0, []))"
    by blast
  moreover from t1 [THEN conjunct2, THEN conjunct1] ok have
    "getUploadConfigData (mock_data None) (world0, []) =
       ((if (None :: error option) = None then (Some 0, Some (Clientset 1), None)
         else (None, None, None)),
        (world0, [] @ [Call_Cfg (Some 0), Call_Client (Some (Clientset 1)) None]))
     \<and> calls_during (getUploadConfigData (mock_data None)) (world0, [])
       = [Call_Cfg (Some 0), Call_Client (Some (Clientset 1)) None]"
    by blast
  moreover from t2 [THEN conjunct2, THEN conjunct1] bad have
    "getUploadConfigData (mock_data (Some ?E)) (world0, []) =
       ((if Some ?E = None then (Some 0, Some (Clientset 1), None)
         else (None, None, Some ?E)),
        (world0, [] @ [Call_Cfg (Some 0), Call_Client (Some (Clientset 1)) (Some ?E)]))
     \<and> calls_during (getUploadConfigData (mock_data (Some ?E))) (world0, [])
       = [Call_Cfg (Some 0), Call_Client (Some (Clientset 1)) (Some ?E)]"
    by blast
  ultimately show ?thesis
    by simp
qed

end
